theory Spec2Isabelle
  imports Main
begin

section \<open>Values, objects and events of the Hardhat tasks\<close>

text \<open>
  The development embeds the tasks of \<^verbatim>\<open>hardhat.config.ts\<close>: \<^verbatim>\<open>node\<close>, \<^verbatim>\<open>panic\<close>,
  \<^verbatim>\<open>unpause\<close>, \<^verbatim>\<open>harvest\<close>, \<^verbatim>\<open>transfer\<close>, \<^verbatim>\<open>generate_accounts\<close>, and the module-level
  code that computes \<^verbatim>\<open>deployerAccount\<close>.

  A JavaScript exception is a value: \<open>err_code\<close> is its \<^verbatim>\<open>code\<close> property (absent on
  errors that are not system errors) and \<open>err_string\<close> is what a template literal
  \<^verbatim>\<open>${err}\<close> renders.
\<close>

datatype js_error = JsError (err_code: "string option") (err_string: string)

text \<open>
  An awaited promise is fulfilled, is rejected, or never settles; a synchronous call
  returns or throws. \<open>Stalled\<close> is the command that waits forever.
\<close>

datatype 'a outcome = Returned 'a | Thrown js_error | Stalled

datatype signer = Signer (signer_address: string)

datatype contract = Contract (contract_address: string) (contract_signer: "signer option")

datatype tx = Tx (hash: string)

datatype deployment = Deployment (deployment_address: string)

datatype contract_call = Panic | Unpause | Harvest | TransferOwnership string

record named_accounts =
  deployer :: string
  vaultOwner :: string
  stratOwner :: string

record node_args =
  fork :: "string option"
  noReset :: bool
  write_arg :: bool

record network_config =
  url :: "string option"
  chainId :: "nat option"

text \<open>
  Hardhat's \<^verbatim>\<open>NetworksConfig\<close> always has the profiles \<^verbatim>\<open>hardhat\<close> and \<^verbatim>\<open>localhost\<close>;
  every other profile is looked up by name.
\<close>

record networks_config =
  hardhat :: network_config
  localhost :: network_config
  others :: "string \<rightharpoonup> network_config"

datatype wallet = Wallet (privateKey: string) (wallet_address: string)

datatype fs_node = File string | Dir

datatype io_call = Mkdir string | Open string | Write string | ReadFile string

text \<open>Every call that leaves the task, and every line it prints, is an event of the trace.\<close>

datatype call =
    RunSuper node_args
  | GetContractAt string string
  | Send contract contract_call
  | Wait tx
  | GetNamedAccounts
  | GetSigner string
  | DeploymentsGet string
  | MkdirSync string
  | OpenSync string string nat
  | CreateRandom
  | WriteFileSync nat string
  | CloseSync nat
  | ReadFileSync string

datatype event =
    Call call
  | ConsoleLog string
  | ConsoleError js_error
  | StdoutWrite string

text \<open>
  The Hardhat runtime environment and the libraries behind it, as the outcomes of the
  calls the tasks make. \<open>network_name\<close> is the active network.
\<close>

record hre =
  network_name :: string
  runSuper :: "node_args \<Rightarrow> unit outcome"
  getContractAt :: "string \<Rightarrow> string \<Rightarrow> contract outcome"
  send :: "contract \<Rightarrow> contract_call \<Rightarrow> tx outcome"
  wait :: "tx \<Rightarrow> unit outcome"
  getNamedAccounts :: "named_accounts outcome"
  getSigner :: "string \<Rightarrow> signer outcome"
  deployments_get :: "string \<Rightarrow> deployment outcome"

text \<open>
  The state of the process: what was printed and called so far, the environment
  variables, \<^verbatim>\<open>hre.config.networks\<close>, the file system (directory entries and the table of
  open descriptors), the I/O faults the operating system injects (permissions, full disk),
  the wallets \<^verbatim>\<open>Wallet.createRandom\<close> will produce, and the local variable \<^verbatim>\<open>file\<close> of
  \<^verbatim>\<open>generate_accounts\<close>, which the \<^verbatim>\<open>finally\<close> blocks read after the \<^verbatim>\<open>try\<close> blocks
  assign it (\<open>None\<close> is \<^verbatim>\<open>undefined\<close> or \<^verbatim>\<open>null\<close>).
\<close>

record world =
  trace :: "event list"
  process_env :: "string \<rightharpoonup> string"
  networks :: networks_config
  entries :: "string \<rightharpoonup> fs_node"
  fds :: "(nat \<times> string) list"
  fault :: "io_call \<Rightarrow> js_error option"
  wallets :: "nat \<Rightarrow> js_error + wallet"
  wallets_made :: nat
  file_var :: "nat option"

type_synonym 'a prog = "world \<Rightarrow> 'a outcome \<times> world"

section \<open>Control flow\<close>

definition ret :: "'a \<Rightarrow> 'a prog" where
  "ret x = (\<lambda>w. (Returned x, w))"

text \<open>Sequencing: a rejected or pending \<^verbatim>\<open>await\<close> ends what follows it.\<close>

definition seq :: "'a prog \<Rightarrow> ('a \<Rightarrow> 'b prog) \<Rightarrow> 'b prog" where
  "seq m f = (\<lambda>w. case m w of
       (Returned x, w') \<Rightarrow> f x w'
     | (Thrown e, w') \<Rightarrow> (Thrown e, w')
     | (Stalled, w') \<Rightarrow> (Stalled, w'))"

definition try_catch :: "'a prog \<Rightarrow> (js_error \<Rightarrow> 'a prog) \<Rightarrow> 'a prog" where
  "try_catch m h = (\<lambda>w. case m w of
       (Thrown e, w') \<Rightarrow> h e w'
     | (Returned x, w') \<Rightarrow> (Returned x, w')
     | (Stalled, w') \<Rightarrow> (Stalled, w'))"

text \<open>
  \<^verbatim>\<open>try { m } finally { c }\<close>: \<open>c\<close> runs after \<open>m\<close> returned or threw; what \<open>c\<close> throws
  replaces the outcome of \<open>m\<close>.
\<close>

definition try_finally :: "'a prog \<Rightarrow> unit prog \<Rightarrow> 'a prog" where
  "try_finally m c = (\<lambda>w. case m w of
       (Stalled, w') \<Rightarrow> (Stalled, w')
     | (r, w') \<Rightarrow> (case c w' of
           (Returned u, w'') \<Rightarrow> (r, w'')
         | (Thrown e, w'') \<Rightarrow> (Thrown e, w'')
         | (Stalled, w'') \<Rightarrow> (Stalled, w'')))"

definition emit :: "event \<Rightarrow> unit prog" where
  "emit ev = (\<lambda>w. (Returned (), w\<lparr>trace := trace w @ [ev]\<rparr>))"

definition console_log :: "string \<Rightarrow> unit prog" where
  "console_log s = emit (ConsoleLog s)"

definition console_error :: "js_error \<Rightarrow> unit prog" where
  "console_error e = emit (ConsoleError e)"

definition stdout_write :: "string \<Rightarrow> unit prog" where
  "stdout_write s = emit (StdoutWrite s)"

text \<open>An external call: the call is recorded, its outcome is the environment's.\<close>

definition await :: "call \<Rightarrow> 'a outcome \<Rightarrow> 'a prog" where
  "await c r = (\<lambda>w. (r, w\<lparr>trace := trace w @ [Call c]\<rparr>))"

text \<open>The events a program adds to the trace of the world it starts in.\<close>

definition emitted :: "'a prog \<Rightarrow> world \<Rightarrow> event list" where
  "emitted p w = drop (length (trace w)) (trace (snd (p w)))"

section \<open>The file system of Node\<close>

definition DEPLOYER_PK_FILE :: string where
  "DEPLOYER_PK_FILE = ''.config/DEPLOYER_PK''"


definition io_error :: "string \<Rightarrow> string \<Rightarrow> string \<Rightarrow> js_error" where
  "io_error c syscall path = JsError (Some c) (''Error: '' @ c @ '', '' @ syscall @ '' '' @ path)"

definition dirname :: "string \<Rightarrow> string" where
  "dirname p = (let r = dropWhile (\<lambda>c. c \<noteq> CHR ''/'') (rev p)
                in if r = [] then ''.'' else rev (tl r))"

text \<open>
  What the resolution of a path reports when the entry itself is absent: the directory
  above it is missing (\<^verbatim>\<open>ENOENT\<close>) or is a regular file (\<^verbatim>\<open>ENOTDIR\<close>). The working
  directory \<^verbatim>\<open>.\<close> is always there.
\<close>

definition parent_error :: "world \<Rightarrow> string \<Rightarrow> string \<Rightarrow> js_error option" where
  "parent_error w syscall path =
     (if dirname path = ''.'' then None
      else case entries w (dirname path) of
             None \<Rightarrow> Some (io_error ''ENOENT'' syscall path)
           | Some (File s) \<Rightarrow> Some (io_error ''ENOTDIR'' syscall path)
           | Some Dir \<Rightarrow> None)"







definition readFileSync :: "string \<Rightarrow> string prog" where
  "readFileSync path = (\<lambda>w0.
     let w = w0\<lparr>trace := trace w0 @ [Call (ReadFileSync path)]\<rparr> in
     case fault w (ReadFile path) of
       Some e \<Rightarrow> (Thrown e, w)
     | None \<Rightarrow>
         (case entries w path of
            Some (File s) \<Rightarrow> (Returned s, w)
          | Some Dir \<Rightarrow> (Thrown (io_error ''EISDIR'' ''read'' path), w)
          | None \<Rightarrow>
              (case parent_error w ''open'' path of
                 Some e \<Rightarrow> (Thrown e, w)
               | None \<Rightarrow> (Thrown (io_error ''ENOENT'' ''open'' path), w))))"


section \<open>The tasks\<close>

subsection \<open>node\<close>

text \<open>A property key or a template hole made from a value that may be \<^verbatim>\<open>undefined\<close>.\<close>

definition js_string :: "string option \<Rightarrow> string" where
  "js_string v = (case v of None \<Rightarrow> ''undefined'' | Some s \<Rightarrow> s)"

text \<open>
  The profiles the configuration itself holds: the own properties of
  \<^verbatim>\<open>hre.config.networks\<close>.
\<close>

definition own_network :: "networks_config \<Rightarrow> string \<Rightarrow> network_config option" where
  "own_network ns name =
     (if name = ''hardhat'' then Some (hardhat ns)
      else if name = ''localhost'' then Some (localhost ns)
      else others ns name)"

text \<open>
  \<^verbatim>\<open>hre.config.networks[name]\<close> reads a property of a plain object: a name the object does
  not hold is looked up in \<^verbatim>\<open>Object.prototype\<close>, whose members are functions (and, for
  \<^verbatim>\<open>__proto__\<close>, the prototype itself). Such a value is truthy and has neither \<^verbatim>\<open>url\<close> nor
  \<^verbatim>\<open>chainId\<close>, which are all the task reads of it.
\<close>

definition object_prototype_keys :: "string list" where
  "object_prototype_keys =
     [''constructor'', ''__defineGetter__'', ''__defineSetter__'', ''hasOwnProperty'',
      ''__lookupGetter__'', ''__lookupSetter__'', ''isPrototypeOf'', ''propertyIsEnumerable'',
      ''toString'', ''valueOf'', ''__proto__'', ''toLocaleString'']"

definition networks_get :: "networks_config \<Rightarrow> string \<Rightarrow> network_config option" where
  "networks_get ns name =
     (case own_network ns name of
        Some network \<Rightarrow> Some network
      | None \<Rightarrow>
          if name \<in> set object_prototype_keys then Some \<lparr>url = None, chainId = None\<rparr>
          else None)"

text \<open>\<^verbatim>\<open>if (network.chainId) { ... }\<close>: the number 0 is falsy, as \<^verbatim>\<open>undefined\<close> is.\<close>

definition set_chainIds :: "nat option \<Rightarrow> unit prog" where
  "set_chainIds c = (\<lambda>w.
     case c of
       None \<Rightarrow> (Returned (), w)
     | Some n \<Rightarrow>
         if n = 0 then (Returned (), w)
         else (Returned (),
               w\<lparr>networks := (networks w)
                    \<lparr>hardhat := (hardhat (networks w))\<lparr>chainId := Some n\<rparr>,
                     localhost := (localhost (networks w))\<lparr>chainId := Some n\<rparr>\<rparr>\<rparr>))"

definition set_env :: "string \<Rightarrow> string \<Rightarrow> unit prog" where
  "set_env k v = (\<lambda>w. (Returned (), w\<lparr>process_env := (process_env w)(k \<mapsto> v)\<rparr>))"

definition task_node :: "hre \<Rightarrow> node_args \<Rightarrow> unit prog" where
  "task_node hre taskArgs = (\<lambda>w.
     case networks_get (networks w) (js_string (fork taskArgs)) of
       Some network \<Rightarrow>
         seq (set_env ''HARDHAT_DEPLOY_FORK'' (js_string (fork taskArgs))) (\<lambda>_.
           let taskArgs1 = taskArgs\<lparr>noReset := True, write_arg := False\<rparr>;
               rpc = url network
           in seq (console_log (''Forking '' @ js_string (fork taskArgs) @ '' from RPC: ''
                                @ js_string rpc)) (\<lambda>_.
                let taskArgs2 = taskArgs1\<lparr>fork := rpc\<rparr> in
                seq (set_chainIds (chainId network)) (\<lambda>_.
                  await (RunSuper taskArgs2) (runSuper hre taskArgs2)))) w
     | None \<Rightarrow> await (RunSuper taskArgs) (runSuper hre taskArgs) w)"

subsection \<open>panic, unpause, harvest\<close>

definition task_panic :: "hre \<Rightarrow> string \<Rightarrow> unit prog" where
  \<open>task_panic hre strat =
     seq (await (GetContractAt ''IStrategy'' strat) (getContractAt hre ''IStrategy'' strat))
       (\<lambda>strategy.
         try_catch
           (seq (await (Send strategy Panic) (send hre strategy Panic)) (\<lambda>tx.
              let url = ''https://bscscan.com/tx/'' @ hash tx in
              seq (await (Wait tx) (wait hre tx)) (\<lambda>_.
                console_log (''Successful panic with tx at '' @ url))))
           (\<lambda>err. console_log (''Couldn't panic due to '' @ err_string err)))\<close>

definition task_unpause :: "hre \<Rightarrow> string \<Rightarrow> unit prog" where
  \<open>task_unpause hre strat =
     seq (await (GetContractAt ''IStrategy'' strat) (getContractAt hre ''IStrategy'' strat))
       (\<lambda>strategy.
         try_catch
           (seq (await (Send strategy Unpause) (send hre strategy Unpause)) (\<lambda>tx.
              let url = ''https://bscscan.com/tx/'' @ hash tx in
              seq (await (Wait tx) (wait hre tx)) (\<lambda>_.
                console_log (''Successful unpaused with tx at '' @ url))))
           (\<lambda>err. console_log (''Couldn't unpause due to '' @ err_string err)))\<close>

definition task_harvest :: "hre \<Rightarrow> string \<Rightarrow> unit prog" where
  \<open>task_harvest hre strat =
     seq (await (GetContractAt ''IStrategy'' strat) (getContractAt hre ''IStrategy'' strat))
       (\<lambda>strategy.
         try_catch
           (seq (await (Send strategy Harvest) (send hre strategy Harvest)) (\<lambda>tx.
              let url = ''https://bscscan.com/tx/'' @ hash tx in
              seq (await (Wait tx) (wait hre tx)) (\<lambda>_.
                console_log (''Successful harvest with tx at '' @ url))))
           (\<lambda>err. console_log (''Couldn't harvest due to '' @ err_string err)))\<close>

subsection \<open>transfer\<close>

text \<open>\<^verbatim>\<open>Ownable__factory.connect(address, signer)\<close> builds the handle of the contract.\<close>

definition connect :: "string \<Rightarrow> signer \<Rightarrow> contract" where
  "connect a s = Contract a (Some s)"

definition task_transfer :: "hre \<Rightarrow> string \<Rightarrow> unit prog" where
  \<open>task_transfer hre vault =
     seq (await GetNamedAccounts (getNamedAccounts hre)) (\<lambda>accounts.
     seq (await (GetSigner (deployer accounts)) (getSigner hre (deployer accounts))) (\<lambda>signer.
     seq (let vaultName = vault @ ''-vault'' in
          seq (await (DeploymentsGet vaultName) (deployments_get hre vaultName)) (\<lambda>vaultDeployment.
          let vContract = connect (deployment_address vaultDeployment) signer in
          seq (stdout_write (''Transfering ownership of "'' @ vaultName @ ''" at "''
                             @ contract_address vContract @ ''" to "''
                             @ vaultOwner accounts @ ''"'')) (\<lambda>_.
          seq (await (Send vContract (TransferOwnership (vaultOwner accounts)))
                     (send hre vContract (TransferOwnership (vaultOwner accounts)))) (\<lambda>tx.
          seq (stdout_write ('' (tx: '' @ hash tx @ '')\<newline>'')) (\<lambda>_.
          await (Wait tx) (wait hre tx)))))) (\<lambda>_.
     seq (let stratName = vault @ ''-strat'' in
          seq (await (DeploymentsGet stratName) (deployments_get hre stratName)) (\<lambda>stratDeployment.
          let sContract = connect (deployment_address stratDeployment) signer in
          seq (stdout_write (''Transfering ownership of "'' @ stratName @ ''" at "''
                             @ contract_address sContract @ ''" to "''
                             @ stratOwner accounts @ ''"'')) (\<lambda>_.
          seq (await (Send sContract (TransferOwnership (stratOwner accounts)))
                     (send hre sContract (TransferOwnership (stratOwner accounts)))) (\<lambda>tx.
          seq (stdout_write ('' (tx: '' @ hash tx @ '')\<newline>'')) (\<lambda>_.
          await (Wait tx) (wait hre tx)))))) (\<lambda>_.
     console_log ''done''))))\<close>

subsection \<open>generate_accounts\<close>





subsection \<open>deployerAccount\<close>

text \<open>
  \<^verbatim>\<open>if (process.env.DEPLOYER_PK)\<close>: an unset variable and the empty string are falsy.
  The result is the value of \<^verbatim>\<open>deployerAccount\<close>, \<open>None\<close> when it stays \<^verbatim>\<open>undefined\<close>.
\<close>

definition deployerAccount :: "string list option prog" where
  \<open>deployerAccount = (\<lambda>w.
     case process_env w ''DEPLOYER_PK'' of
       Some (c # cs) \<Rightarrow> (Returned (Some [c # cs]), w)
     | _ \<Rightarrow>
         try_catch
           (seq (readFileSync DEPLOYER_PK_FILE) (\<lambda>s. ret (Some [s])))
           (\<lambda>e. seq (if err_code e = Some ''ENOENT''
                      then console_log ''Deployer account not found. Create .config/DEPLOYER_PK or run `hardhat generate_accounts`.''
                      else console_error e)
                  (\<lambda>_. ret None)) w)\<close>

section \<open>Lines of the tasks\<close>




section \<open>Concrete environments\<close>

text \<open>
  A fresh process in an empty working directory, with the profiles \<^verbatim>\<open>bsc\<close> (chain 56)
  and \<^verbatim>\<open>zero\<close> (a profile that declares the chain identifier 0) beside the two every
  configuration has. The \<open>n\<close>-th wallet of the random source is told apart by \<open>n\<close>.
\<close>

definition world0 :: world where
  "world0 = \<lparr>trace = [], process_env = Map.empty,
     networks = \<lparr>hardhat = \<lparr>url = None, chainId = Some 31337\<rparr>,
                 localhost = \<lparr>url = Some ''http://127.0.0.1:8545'', chainId = None\<rparr>,
                 others = [''bsc'' \<mapsto> \<lparr>url = Some ''https://bsc-dataseed.binance.org/'',
                                       chainId = Some 56\<rparr>,
                           ''zero'' \<mapsto> \<lparr>url = Some ''http://zero.example'',
                                        chainId = Some 0\<rparr>]\<rparr>,
     entries = Map.empty, fds = [], fault = (\<lambda>c. None),
     wallets = (\<lambda>n. Inr (Wallet (''key'' @ replicate n CHR ''1'')
                               (''addr'' @ replicate n CHR ''1''))),
     wallets_made = 0, file_var = None\<rparr>"

text \<open>An environment in which every call succeeds; the active network is Polygon.\<close>

definition hre_ok :: hre where
  "hre_ok = \<lparr>network_name = ''polygon'',
     runSuper = (\<lambda>a. Returned ()),
     getContractAt = (\<lambda>n a. Returned (Contract a None)),
     send = (\<lambda>c m. Returned (Tx (''0xtx'' @ contract_address c))),
     wait = (\<lambda>t. Returned ()),
     getNamedAccounts =
       Returned \<lparr>deployer = ''0xd'', vaultOwner = ''0xvo'', stratOwner = ''0xso''\<rparr>,
     getSigner = (\<lambda>a. Returned (Signer a)),
     deployments_get = (\<lambda>n. Returned (Deployment (''0x'' @ n)))\<rparr>"

text \<open>The deployment registry has no entry \<^verbatim>\<open>foo-vault\<close>.\<close>

definition hre_vault_missing :: hre where
  "hre_vault_missing = hre_ok\<lparr>deployments_get := (\<lambda>n.
      if n = ''foo-vault''
      then Thrown (JsError None ''Error: No deployment found for: foo-vault'')
      else Returned (Deployment (''0x'' @ n)))\<rparr>"

text \<open>Every submitted transaction is rejected: the contract call reverts.\<close>

definition revert_error :: js_error where
  "revert_error = JsError (Some ''CALL_EXCEPTION'') ''Error: execution reverted: !manager''"

definition hre_reverts :: hre where
  "hre_reverts = hre_ok\<lparr>send := (\<lambda>c m. Thrown revert_error)\<rparr>"

text \<open>Submission succeeds and the confirmation wait fails.\<close>

definition hre_unconfirmed :: hre where
  "hre_unconfirmed = hre_ok\<lparr>wait := (\<lambda>t. Thrown revert_error)\<rparr>"




text \<open>Both key files are there already.\<close>

definition world_with_keys :: world where
  "world_with_keys = world0\<lparr>entries := [''.config'' \<mapsto> Dir,
      ''.config/DEPLOYER_PK'' \<mapsto> File ''0xdeployerkey'',
      ''.config/OTHER_PK'' \<mapsto> File ''0xotherkey'']\<rparr>"




text \<open>\<^verbatim>\<open>.config\<close> is a regular file, not a directory.\<close>

definition world_config_is_file :: world where
  "world_config_is_file = world0\<lparr>entries := [''.config'' \<mapsto> File []]\<rparr>"

text \<open>The key file is there and \<^verbatim>\<open>DEPLOYER_PK\<close> is set to the empty string.\<close>

definition world_empty_override :: world where
  "world_empty_override = world_with_keys\<lparr>process_env := [''DEPLOYER_PK'' \<mapsto> '''']\<rparr>"

definition world_override :: world where
  "world_override = world_with_keys\<lparr>process_env := [''DEPLOYER_PK'' \<mapsto> ''0xenvkey'']\<rparr>"

section \<open>Proof tools\<close>

lemmas prog_defs = ret_def seq_def try_catch_def try_finally_def emit_def console_log_def
  console_error_def stdout_write_def await_def

lemmas strategy_task_defs = task_panic_def task_unpause_def task_harvest_def

lemmas env_defs = hre_ok_def hre_vault_missing_def hre_reverts_def hre_unconfirmed_def
  revert_error_def world0_def

section \<open>The operation executor: panic, unpause, harvest\<close>

text \<open>
  C4. A task of the operation executor prints its success line only when the submission
  returned a transaction and the confirmation wait returned after it: the events of such
  a run are the handle lookup, the submission, the wait and then the success line, in
  this order. When the submission or the confirmation wait fails with an error, the task
  returns normally, its last line is the failure message with the rendering of that
  error, and no success line is printed.
\<close>

theorem executor_reports:
  assumes \<open>(task, m, ok_msg, fail_msg) \<in>
     {(task_panic, Panic, ''Successful panic with tx at '', ''Couldn't panic due to ''),
      (task_unpause, Unpause, ''Successful unpaused with tx at '', ''Couldn't unpause due to ''),
      (task_harvest, Harvest, ''Successful harvest with tx at '', ''Couldn't harvest due to '')}\<close>
  shows \<open>(ConsoleLog (ok_msg @ u) \<in> set (emitted (task hre strat) w) \<longrightarrow>
            (\<exists>strategy tx.
               getContractAt hre ''IStrategy'' strat = Returned strategy \<and>
               send hre strategy m = Returned tx \<and>
               wait hre tx = Returned () \<and>
               emitted (task hre strat) w =
                 [Call (GetContractAt ''IStrategy'' strat), Call (Send strategy m),
                  Call (Wait tx), ConsoleLog (ok_msg @ u)])) \<and>
         (getContractAt hre ''IStrategy'' strat = Returned strategy \<and>
          (send hre strategy m = Thrown e \<or>
           (\<exists>tx. send hre strategy m = Returned tx \<and> wait hre tx = Thrown e)) \<longrightarrow>
            fst (task hre strat w) = Returned () \<and>
            last (emitted (task hre strat) w) = ConsoleLog (fail_msg @ err_string e) \<and>
            (\<forall>v. ConsoleLog (ok_msg @ v) \<notin> set (emitted (task hre strat) w)))\<close>
  using assms
  by (auto simp: strategy_task_defs prog_defs emitted_def split: outcome.splits)

theorem executor_reports_witness:
  \<open>emitted (task_panic hre_ok ''0xstrat'') world0 =
     [Call (GetContractAt ''IStrategy'' ''0xstrat''), Call (Send (Contract ''0xstrat'' None) Panic),
      Call (Wait (Tx ''0xtx0xstrat'')),
      ConsoleLog ''Successful panic with tx at https://bscscan.com/tx/0xtx0xstrat''] \<and>
   fst (task_harvest hre_reverts ''0xstrat'' world0) = Returned () \<and>
   last (emitted (task_harvest hre_reverts ''0xstrat'') world0) =
     ConsoleLog ''Couldn't harvest due to Error: execution reverted: !manager'' \<and>
   last (emitted (task_unpause hre_unconfirmed ''0xstrat'') world0) =
     ConsoleLog ''Couldn't unpause due to Error: execution reverted: !manager''\<close>
proof -
  have logged: \<open>ConsoleLog (''Successful panic with tx at '' @ ''https://bscscan.com/tx/0xtx0xstrat'')
      \<in> set (emitted (task_panic hre_ok ''0xstrat'') world0)\<close>
    by (simp add: task_panic_def prog_defs emitted_def env_defs)
  have a: \<open>emitted (task_panic hre_ok ''0xstrat'') world0 =
     [Call (GetContractAt ''IStrategy'' ''0xstrat''), Call (Send (Contract ''0xstrat'' None) Panic),
      Call (Wait (Tx ''0xtx0xstrat'')),
      ConsoleLog ''Successful panic with tx at https://bscscan.com/tx/0xtx0xstrat'']\<close>
    using logged
      executor_reports [where task = task_panic and m = Panic
        and ok_msg = \<open>''Successful panic with tx at ''\<close>
        and fail_msg = \<open>''Couldn't panic due to ''\<close>
        and u = \<open>''https://bscscan.com/tx/0xtx0xstrat''\<close>
        and hre = hre_ok and strat = \<open>''0xstrat''\<close> and w = world0]
    by (auto simp: env_defs)
  have b: \<open>fst (task_harvest hre_reverts ''0xstrat'' world0) = Returned () \<and>
     last (emitted (task_harvest hre_reverts ''0xstrat'') world0) =
       ConsoleLog ''Couldn't harvest due to Error: execution reverted: !manager''\<close>
    using executor_reports [where task = task_harvest and m = Harvest
        and ok_msg = \<open>''Successful harvest with tx at ''\<close>
        and fail_msg = \<open>''Couldn't harvest due to ''\<close>
        and hre = hre_reverts and strat = \<open>''0xstrat''\<close>
        and strategy = \<open>Contract ''0xstrat'' None\<close> and e = revert_error and w = world0]
    by (simp add: env_defs)
  have c: \<open>last (emitted (task_unpause hre_unconfirmed ''0xstrat'') world0) =
       ConsoleLog ''Couldn't unpause due to Error: execution reverted: !manager''\<close>
    using executor_reports [where task = task_unpause and m = Unpause
        and ok_msg = \<open>''Successful unpaused with tx at ''\<close>
        and fail_msg = \<open>''Couldn't unpause due to ''\<close>
        and hre = hre_unconfirmed and strat = \<open>''0xstrat''\<close>
        and strategy = \<open>Contract ''0xstrat'' None\<close> and e = revert_error and w = world0]
    by (simp add: env_defs)
  from a b c show ?thesis by simp
qed

section \<open>The explorer reference\<close>

text \<open>
  C10. On every active network \<open>n\<close>, the success line of panic, unpause and harvest
  is the task's prefix followed by \<^verbatim>\<open>https://bscscan.com/tx/\<close> and the hash of the
  transaction: the reference does not depend on the active network.
\<close>

theorem explorer_reference_is_bscscan:
  assumes \<open>(task, m, ok_msg) \<in>
     {(task_panic, Panic, ''Successful panic with tx at ''),
      (task_unpause, Unpause, ''Successful unpaused with tx at ''),
      (task_harvest, Harvest, ''Successful harvest with tx at '')}\<close>
    and \<open>getContractAt hre ''IStrategy'' strat = Returned strategy\<close>
    and \<open>send hre strategy m = Returned tx\<close>
    and \<open>wait hre tx = Returned ()\<close>
  shows \<open>last (emitted (task (hre\<lparr>network_name := n\<rparr>) strat) w) =
           ConsoleLog (ok_msg @ ''https://bscscan.com/tx/'' @ hash tx)\<close>
  using assms
  by (auto simp: strategy_task_defs prog_defs emitted_def split: outcome.splits)

theorem explorer_reference_is_bscscan_witness:
  \<open>network_name hre_ok = ''polygon'' \<and>
   last (emitted (task_panic (hre_ok\<lparr>network_name := ''fantom''\<rparr>) ''0xstrat'') world0) =
     ConsoleLog ''Successful panic with tx at https://bscscan.com/tx/0xtx0xstrat''\<close>
  using explorer_reference_is_bscscan [where task = task_panic and m = Panic
      and ok_msg = \<open>''Successful panic with tx at ''\<close> and hre = hre_ok
      and strat = \<open>''0xstrat''\<close> and strategy = \<open>Contract ''0xstrat'' None\<close>
      and tx = \<open>Tx ''0xtx0xstrat''\<close> and n = \<open>''fantom''\<close> and w = world0]
  by (simp add: env_defs)

section \<open>The ownership transfer\<close>

text \<open>
  C1, as the code has it. The task has no \<^verbatim>\<open>try\<close> block: the strategy step (the lookup of
  the deployment \<^verbatim>\<open>vault-strat\<close>) is attempted exactly when the named accounts, the signer
  and the whole vault step (lookup of \<^verbatim>\<open>vault-vault\<close>, submission, confirmation) have
  succeeded. When the lookup of the vault's deployment fails, the task ends there and the
  strategy step is never attempted.
\<close>

theorem transfer_strategy_step_iff:
  \<open>Call (DeploymentsGet (vault @ ''-strat'')) \<in> set (emitted (task_transfer hre vault) w) \<longleftrightarrow>
   (\<exists>accounts signer d tx.
      getNamedAccounts hre = Returned accounts \<and>
      getSigner hre (deployer accounts) = Returned signer \<and>
      deployments_get hre (vault @ ''-vault'') = Returned d \<and>
      send hre (connect (deployment_address d) signer) (TransferOwnership (vaultOwner accounts))
        = Returned tx \<and>
      wait hre tx = Returned ())\<close>
  by (auto simp add: task_transfer_def prog_defs emitted_def Let_def split: outcome.splits)

theorem transfer_strategy_step_iff_witness:
  \<open>Call (DeploymentsGet ''foo-strat'') \<in> set (emitted (task_transfer hre_ok ''foo'') world0)\<close>
proof -
  have \<open>\<exists>accounts signer d tx.
      getNamedAccounts hre_ok = Returned accounts \<and>
      getSigner hre_ok (deployer accounts) = Returned signer \<and>
      deployments_get hre_ok (''foo'' @ ''-vault'') = Returned d \<and>
      send hre_ok (connect (deployment_address d) signer) (TransferOwnership (vaultOwner accounts))
        = Returned tx \<and>
      wait hre_ok tx = Returned ()\<close>
    by (simp add: env_defs)
  then show ?thesis
    using transfer_strategy_step_iff [where vault = \<open>''foo''\<close> and hre = hre_ok and w = world0]
    by simp
qed

theorem transfer_skips_strategy_counterexample:
  \<open>deployments_get hre_vault_missing ''foo-vault''
     = Thrown (JsError None ''Error: No deployment found for: foo-vault'') \<and>
   emitted (task_transfer hre_vault_missing ''foo'') world0 =
     [Call GetNamedAccounts, Call (GetSigner ''0xd''), Call (DeploymentsGet ''foo-vault'')] \<and>
   Call (DeploymentsGet ''foo-strat'') \<notin> set (emitted (task_transfer hre_vault_missing ''foo'') world0)\<close>
  by (simp add: task_transfer_def prog_defs emitted_def Let_def env_defs)

text \<open>
  C8. For every vault name \<open>v\<close>, when every call succeeds, the task looks up exactly the
  deployments \<open>v-vault\<close> and \<open>v-strat\<close>, submits one \<^verbatim>\<open>transferOwnership\<close> for each, to
  the vault owner and to the strategy owner, through contracts connected with the
  deployer's signer, prints the hash of each transaction after its submission, and prints
  \<^verbatim>\<open>done\<close> last.
\<close>

theorem transfer_submits_both:
  assumes \<open>getNamedAccounts hre = Returned accounts\<close>
    and \<open>getSigner hre (deployer accounts) = Returned signer\<close>
    and \<open>deployments_get hre (v @ ''-vault'') = Returned vd\<close>
    and \<open>send hre (Contract (deployment_address vd) (Some signer))
           (TransferOwnership (vaultOwner accounts)) = Returned vtx\<close>
    and \<open>wait hre vtx = Returned ()\<close>
    and \<open>deployments_get hre (v @ ''-strat'') = Returned sd\<close>
    and \<open>send hre (Contract (deployment_address sd) (Some signer))
           (TransferOwnership (stratOwner accounts)) = Returned stx\<close>
    and \<open>wait hre stx = Returned ()\<close>
  shows \<open>fst (task_transfer hre v w) = Returned () \<and>
         emitted (task_transfer hre v) w =
           [Call GetNamedAccounts,
            Call (GetSigner (deployer accounts)),
            Call (DeploymentsGet (v @ ''-vault'')),
            StdoutWrite (''Transfering ownership of "'' @ v @ ''-vault" at "''
                         @ deployment_address vd @ ''" to "'' @ vaultOwner accounts @ ''"''),
            Call (Send (Contract (deployment_address vd) (Some signer))
                       (TransferOwnership (vaultOwner accounts))),
            StdoutWrite ('' (tx: '' @ hash vtx @ '')\<newline>''),
            Call (Wait vtx),
            Call (DeploymentsGet (v @ ''-strat'')),
            StdoutWrite (''Transfering ownership of "'' @ v @ ''-strat" at "''
                         @ deployment_address sd @ ''" to "'' @ stratOwner accounts @ ''"''),
            Call (Send (Contract (deployment_address sd) (Some signer))
                       (TransferOwnership (stratOwner accounts))),
            StdoutWrite ('' (tx: '' @ hash stx @ '')\<newline>''),
            Call (Wait stx),
            ConsoleLog ''done'']\<close>
  using assms
  by (simp add: task_transfer_def prog_defs emitted_def Let_def connect_def)

theorem transfer_submits_both_witness:
  \<open>fst (task_transfer hre_ok ''foo'' world0) = Returned () \<and>
   emitted (task_transfer hre_ok ''foo'') world0 =
     [Call GetNamedAccounts,
      Call (GetSigner ''0xd''),
      Call (DeploymentsGet ''foo-vault''),
      StdoutWrite ''Transfering ownership of "foo-vault" at "0xfoo-vault" to "0xvo"'',
      Call (Send (Contract ''0xfoo-vault'' (Some (Signer ''0xd''))) (TransferOwnership ''0xvo'')),
      StdoutWrite '' (tx: 0xtx0xfoo-vault)\<newline>'',
      Call (Wait (Tx ''0xtx0xfoo-vault'')),
      Call (DeploymentsGet ''foo-strat''),
      StdoutWrite ''Transfering ownership of "foo-strat" at "0xfoo-strat" to "0xso"'',
      Call (Send (Contract ''0xfoo-strat'' (Some (Signer ''0xd''))) (TransferOwnership ''0xso'')),
      StdoutWrite '' (tx: 0xtx0xfoo-strat)\<newline>'',
      Call (Wait (Tx ''0xtx0xfoo-strat'')),
      ConsoleLog ''done'']\<close>
  using transfer_submits_both [where hre = hre_ok and v = \<open>''foo''\<close> and w = world0
      and accounts = \<open>\<lparr>deployer = ''0xd'', vaultOwner = ''0xvo'', stratOwner = ''0xso''\<rparr>\<close>
      and signer = \<open>Signer ''0xd''\<close> and vd = \<open>Deployment ''0xfoo-vault''\<close>
      and sd = \<open>Deployment ''0xfoo-strat''\<close> and vtx = \<open>Tx ''0xtx0xfoo-vault''\<close>
      and stx = \<open>Tx ''0xtx0xfoo-strat''\<close>]
  by (simp add: env_defs)

section \<open>Credential generation\<close>

subsection \<open>Descriptors and the steps of the task\<close>
























subsection \<open>Release of the file handles\<close>



subsection \<open>An existing key is kept\<close>








subsection \<open>A failure of the directory creation\<close>





section \<open>Fork resolution\<close>

text \<open>
  C5, as the code has it. For a fork identifier \<open>f\<close> that names a configured profile, the
  parent task is run with that profile's endpoint as the fork source, with \<^verbatim>\<open>noReset\<close>
  set and \<^verbatim>\<open>write\<close> cleared, and \<^verbatim>\<open>HARDHAT_DEPLOY_FORK\<close> holds \<open>f\<close>; a chain identifier
  the profile declares overrides the chain identifier of \<^verbatim>\<open>hardhat\<close> and \<^verbatim>\<open>localhost\<close>
  when it is not 0, and the network table is untouched when the profile declares none or
  declares 0 (the test \<^verbatim>\<open>if (network.chainId)\<close> is on truthiness). For an identifier that
  names no profile and is not the name of a property every object inherits, the parent
  task is run with the arguments as given and nothing else changes.
\<close>

theorem fork_resolution:
  assumes "fork taskArgs = Some f"
  shows "(\<forall>network. own_network (networks w) f = Some network \<longrightarrow>
            last (emitted (task_node hre taskArgs) w) =
              Call (RunSuper \<lparr>fork = url network, noReset = True, write_arg = False\<rparr>) \<and>
            fst (task_node hre taskArgs w) =
              runSuper hre \<lparr>fork = url network, noReset = True, write_arg = False\<rparr> \<and>
            process_env (snd (task_node hre taskArgs w)) ''HARDHAT_DEPLOY_FORK'' = Some f \<and>
            (\<forall>c. chainId network = Some c \<and> c \<noteq> 0 \<longrightarrow>
               chainId (hardhat (networks (snd (task_node hre taskArgs w)))) = Some c \<and>
               chainId (localhost (networks (snd (task_node hre taskArgs w)))) = Some c) \<and>
            (chainId network = None \<or> chainId network = Some 0 \<longrightarrow>
               networks (snd (task_node hre taskArgs w)) = networks w)) \<and>
         (own_network (networks w) f = None \<and> f \<notin> set object_prototype_keys \<longrightarrow>
            task_node hre taskArgs w =
              (runSuper hre taskArgs, w\<lparr>trace := trace w @ [Call (RunSuper taskArgs)]\<rparr>))"
  using assms
  by (cases taskArgs)
     (auto simp: task_node_def networks_get_def prog_defs emitted_def set_env_def
           set_chainIds_def js_string_def Let_def split: option.splits)

theorem fork_resolution_witness:
  "own_network (networks world0) ''bsc''
     = Some \<lparr>url = Some ''https://bsc-dataseed.binance.org/'', chainId = Some 56\<rparr> \<and>
   last (emitted (task_node hre_ok \<lparr>fork = Some ''bsc'', noReset = False, write_arg = True\<rparr>) world0)
     = Call (RunSuper \<lparr>fork = Some ''https://bsc-dataseed.binance.org/'', noReset = True,
                        write_arg = False\<rparr>) \<and>
   chainId (hardhat (networks (snd (task_node hre_ok
      \<lparr>fork = Some ''bsc'', noReset = False, write_arg = True\<rparr> world0)))) = Some 56 \<and>
   chainId (localhost (networks (snd (task_node hre_ok
      \<lparr>fork = Some ''bsc'', noReset = False, write_arg = True\<rparr> world0)))) = Some 56 \<and>
   own_network (networks world0) ''mainnet'' = None \<and>
   ''mainnet'' \<notin> set object_prototype_keys \<and>
   task_node hre_ok \<lparr>fork = Some ''mainnet'', noReset = False, write_arg = True\<rparr> world0 =
     (Returned (), world0\<lparr>trace := [Call (RunSuper
        \<lparr>fork = Some ''mainnet'', noReset = False, write_arg = True\<rparr>)]\<rparr>)"
proof -
  have bsc: "own_network (networks world0) ''bsc''
     = Some \<lparr>url = Some ''https://bsc-dataseed.binance.org/'', chainId = Some 56\<rparr>"
    and mainnet: "own_network (networks world0) ''mainnet'' = None"
    and inherited: "''mainnet'' \<notin> set object_prototype_keys"
    by (simp_all add: own_network_def object_prototype_keys_def world0_def)
  show ?thesis
    using bsc mainnet inherited
      fork_resolution [where taskArgs = "\<lparr>fork = Some ''bsc'', noReset = False, write_arg = True\<rparr>"
        and f = "''bsc''" and w = world0 and hre = hre_ok]
      fork_resolution [where taskArgs = "\<lparr>fork = Some ''mainnet'', noReset = False, write_arg = True\<rparr>"
        and f = "''mainnet''" and w = world0 and hre = hre_ok]
    by (simp add: hre_ok_def world0_def)
qed

theorem fork_resolution_counterexample:
  "own_network (networks world0) ''zero''
     = Some \<lparr>url = Some ''http://zero.example'', chainId = Some 0\<rparr> \<and>
   chainId (hardhat (networks (snd (task_node hre_ok
      \<lparr>fork = Some ''zero'', noReset = False, write_arg = True\<rparr> world0)))) = Some 31337 \<and>
   chainId (localhost (networks (snd (task_node hre_ok
      \<lparr>fork = Some ''zero'', noReset = False, write_arg = True\<rparr> world0)))) = None \<and>
   own_network (networks world0) ''constructor'' = None \<and>
   emitted (task_node hre_ok \<lparr>fork = Some ''constructor'', noReset = False, write_arg = True\<rparr>)
       world0 =
     [ConsoleLog ''Forking constructor from RPC: undefined'',
      Call (RunSuper \<lparr>fork = None, noReset = True, write_arg = False\<rparr>)] \<and>
   process_env (snd (task_node hre_ok
      \<lparr>fork = Some ''constructor'', noReset = False, write_arg = True\<rparr> world0))
      ''HARDHAT_DEPLOY_FORK'' = Some ''constructor''"
  by (simp add: task_node_def prog_defs set_env_def set_chainIds_def js_string_def emitted_def
      networks_get_def own_network_def object_prototype_keys_def Let_def hre_ok_def world0_def)

section \<open>Loading the deployer's credential\<close>

lemma dirname_deployer: "dirname DEPLOYER_PK_FILE = ''.config''"
  by (simp add: dirname_def DEPLOYER_PK_FILE_def)

text \<open>
  C6, as the code has it. When \<^verbatim>\<open>DEPLOYER_PK\<close> is set to a non-empty string, that string
  is the deployer account and the world is unchanged: the key file is not read. When the
  variable is unset or empty, the key file is read, and the loading returns with the
  account undefined whatever the read throws: for \<^verbatim>\<open>ENOENT\<close> (neither the file nor a
  regular file in place of its directory is there, and no fault is reported first) it
  prints the line that names the missing file and the remedy; for any other error it
  prints the error with \<^verbatim>\<open>console.error\<close>.
\<close>

theorem deployer_credential_loading:
  \<open>(process_env w ''DEPLOYER_PK'' = Some s \<and> s \<noteq> [] \<longrightarrow>
      deployerAccount w = (Returned (Some [s]), w)) \<and>
   ((process_env w ''DEPLOYER_PK'' = None \<or> process_env w ''DEPLOYER_PK'' = Some []) \<longrightarrow>
      (fault w (ReadFile DEPLOYER_PK_FILE) = None \<and> entries w DEPLOYER_PK_FILE = None \<and>
       (\<forall>c. entries w ''.config'' \<noteq> Some (File c)) \<longrightarrow>
         deployerAccount w =
           (Returned None,
            w\<lparr>trace := trace w @
               [Call (ReadFileSync DEPLOYER_PK_FILE),
                ConsoleLog ''Deployer account not found. Create .config/DEPLOYER_PK or run `hardhat generate_accounts`.'']\<rparr>)) \<and>
      (\<forall>e. fst (readFileSync DEPLOYER_PK_FILE w) = Thrown e \<longrightarrow>
         deployerAccount w =
           (Returned None,
            w\<lparr>trace := trace w @
               [Call (ReadFileSync DEPLOYER_PK_FILE),
                if err_code e = Some ''ENOENT''
                then ConsoleLog ''Deployer account not found. Create .config/DEPLOYER_PK or run `hardhat generate_accounts`.''
                else ConsoleError e]\<rparr>)))\<close>
  by (auto simp: deployerAccount_def prog_defs readFileSync_def parent_error_def dirname_deployer
      io_error_def Let_def split: option.splits list.splits fs_node.splits)

theorem deployer_credential_loading_witness:
  \<open>deployerAccount world_override = (Returned (Some [''0xenvkey'']), world_override) \<and>
   entries world_override DEPLOYER_PK_FILE = Some (File ''0xdeployerkey'') \<and>
   deployerAccount world0 =
     (Returned None,
      world0\<lparr>trace := [Call (ReadFileSync DEPLOYER_PK_FILE),
         ConsoleLog ''Deployer account not found. Create .config/DEPLOYER_PK or run `hardhat generate_accounts`.'']\<rparr>) \<and>
   deployerAccount world_config_is_file =
     (Returned None,
      world_config_is_file\<lparr>trace := [Call (ReadFileSync DEPLOYER_PK_FILE),
         ConsoleError (io_error ''ENOTDIR'' ''open'' DEPLOYER_PK_FILE)]\<rparr>)\<close>
proof -
  have a: \<open>process_env world_override ''DEPLOYER_PK'' = Some ''0xenvkey''\<close>
    and b: \<open>entries world_override DEPLOYER_PK_FILE = Some (File ''0xdeployerkey'')\<close>
    and c: \<open>process_env world0 ''DEPLOYER_PK'' = None\<close>
    and d: \<open>entries world0 DEPLOYER_PK_FILE = None\<close>
    and e: \<open>trace world0 = []\<close>
    and f: \<open>fault world0 (ReadFile DEPLOYER_PK_FILE) = None\<close>
    and g: \<open>\<forall>c. entries world0 ''.config'' \<noteq> Some (File c)\<close>
    and h: \<open>process_env world_config_is_file ''DEPLOYER_PK'' = None\<close>
    and i: \<open>trace world_config_is_file = []\<close>
    by (simp_all add: world_override_def world_with_keys_def world_config_is_file_def world0_def
        DEPLOYER_PK_FILE_def)
  have j: \<open>fst (readFileSync DEPLOYER_PK_FILE world_config_is_file)
      = Thrown (io_error ''ENOTDIR'' ''open'' DEPLOYER_PK_FILE)\<close>
    by (simp add: readFileSync_def parent_error_def dirname_deployer Let_def
        world_config_is_file_def world0_def)
      (simp add: DEPLOYER_PK_FILE_def)
  have k: \<open>err_code (io_error ''ENOTDIR'' ''open'' DEPLOYER_PK_FILE) \<noteq> Some ''ENOENT''\<close>
    by (simp add: io_error_def)
  show ?thesis
    using a b c d e f g h i j k
      deployer_credential_loading [where w = world_override and s = \<open>''0xenvkey''\<close>]
      deployer_credential_loading [where w = world0]
      deployer_credential_loading [where w = world_config_is_file]
    by simp
qed

theorem deployer_credential_loading_counterexample:
  \<open>process_env world_empty_override ''DEPLOYER_PK'' = Some '''' \<and>
   fst (deployerAccount world_empty_override) = Returned (Some [''0xdeployerkey'']) \<and>
   emitted deployerAccount world_empty_override = [Call (ReadFileSync DEPLOYER_PK_FILE)] \<and>
   process_env world_config_is_file ''DEPLOYER_PK'' = None \<and>
   entries world_config_is_file DEPLOYER_PK_FILE = None \<and>
   emitted deployerAccount world_config_is_file =
     [Call (ReadFileSync DEPLOYER_PK_FILE),
      ConsoleError (io_error ''ENOTDIR'' ''open'' DEPLOYER_PK_FILE)]\<close>
  by (simp add: deployerAccount_def prog_defs readFileSync_def parent_error_def dirname_def
      io_error_def Let_def emitted_def world_empty_override_def world_with_keys_def
      world_config_is_file_def world0_def DEPLOYER_PK_FILE_def)

section \<open>Where failures are caught\<close>









end
